theory Spec2Isabelle
  imports Main
begin

section \<open>JavaScript values and objects\<close>

text \<open>
  The logger of \<^verbatim>\<open>src/src/index.ts\<close> is TypeScript that runs as JavaScript: the types
  are erased, objects are dynamic property bags, and the output is produced by
  \<^verbatim>\<open>JSON.stringify\<close>. The values the logger handles are modelled by one datatype.
  \<^item> \<open>JNum\<close> holds an integer: the only numbers of the source are the level codes and
    the process id.
  \<^item> \<open>JFun\<close> is a function value, known by its name only. No function is ever called
    in the model; functions matter because a property lookup can return one and because
    \<^verbatim>\<open>JSON.stringify\<close> leaves them out.
  \<^item> strings are \<open>char\<close> lists; a character above 127 stands for a byte of the UTF-8
    form of the text that is written to the stream.
  An object is the list of its own enumerable string-keyed properties, in the order in
  which JavaScript enumerates them, each key at most once.
\<close>

datatype jsval =
    JUndefined
  | JNull
  | JBool bool
  | JNum int
  | JStr string
  | JArr "jsval list"
  | JObj "(string \<times> jsval) list"
  | JFun string

type_synonym obj = "(string \<times> jsval) list"

text \<open>Truthiness (ToBoolean), and the operator \<^verbatim>\<open>a || b\<close>: \<^verbatim>\<open>a\<close> when it is truthy, else \<^verbatim>\<open>b\<close>.\<close>

fun truthy :: "jsval \<Rightarrow> bool" where
  "truthy JUndefined = False"
| "truthy JNull = False"
| "truthy (JBool b) = b"
| "truthy (JNum n) = (n \<noteq> 0)"
| "truthy (JStr s) = (s \<noteq> [])"
| "truthy (JArr vs) = True"
| "truthy (JObj ps) = True"
| "truthy (JFun f) = True"

definition js_or :: "jsval \<Rightarrow> jsval \<Rightarrow> jsval" where
  "js_or a b = (if truthy a then a else b)"

text \<open>
  An object written as a literal inherits from \<^verbatim>\<open>Object.prototype\<close>. Reading a property
  \<^verbatim>\<open>o[k]\<close> looks among the own properties first and then follows the prototype chain;
  a name found nowhere reads as \<^verbatim>\<open>undefined\<close>. The properties of \<^verbatim>\<open>Object.prototype\<close>
  are those of ECMAScript (with its Annex B); all are functions but the accessor
  \<^verbatim>\<open>__proto__\<close>, which yields \<^verbatim>\<open>Object.prototype\<close> itself, an object with no enumerable
  property.
\<close>

definition Object_prototype :: obj where
  "Object_prototype =
    [(''constructor'', JFun ''Object''),
     (''__defineGetter__'', JFun ''__defineGetter__''),
     (''__defineSetter__'', JFun ''__defineSetter__''),
     (''hasOwnProperty'', JFun ''hasOwnProperty''),
     (''__lookupGetter__'', JFun ''__lookupGetter__''),
     (''__lookupSetter__'', JFun ''__lookupSetter__''),
     (''isPrototypeOf'', JFun ''isPrototypeOf''),
     (''propertyIsEnumerable'', JFun ''propertyIsEnumerable''),
     (''toString'', JFun ''toString''),
     (''valueOf'', JFun ''valueOf''),
     (''__proto__'', JObj []),
     (''toLocaleString'', JFun ''toLocaleString'')]"

definition js_get :: "obj \<Rightarrow> string \<Rightarrow> jsval" where
  "js_get ob k =
    (case map_of ob k of
       Some v \<Rightarrow> v
     | None \<Rightarrow> (case map_of Object_prototype k of Some v \<Rightarrow> v | None \<Rightarrow> JUndefined))"

section \<open>The level table\<close>

text \<open>
  \<^verbatim>\<open>const levelMap: { [key: string]: number } = { error: 50, warn: 40, info: 30, debug: 20 };\<close>

  The formatters compute the numeric level as \<^verbatim>\<open>levelMap[level] || level\<close>; the later
  revision of the file stores it under the key \<^verbatim>\<open>levelNumber\<close>, whose name the
  expression takes here.
\<close>

definition levelMap :: obj where
  "levelMap =
    [(''error'', JNum 50), (''warn'', JNum 40), (''info'', JNum 30), (''debug'', JNum 20)]"

definition levelNumber :: "string \<Rightarrow> jsval" where
  "levelNumber lvl = js_or (js_get levelMap lvl) (JStr lvl)"

section \<open>JSON.stringify\<close>

text \<open>
  Decimal digits of a natural number, and the decimal form of an integer as JavaScript
  prints it (the model's numbers are integers in the range that prints without an
  exponent).
\<close>

definition digit_char :: "nat \<Rightarrow> char" where
  "digit_char d = ''0123456789abcdef'' ! d"

function digits :: "nat \<Rightarrow> string" where
  "digits n = (if n < 10 then [digit_char n] else digits (n div 10) @ [digit_char (n mod 10)])"
  by pat_completeness auto
termination
  by (relation "measure id") auto

declare digits.simps [simp del]

definition show_int :: "int \<Rightarrow> string" where
  "show_int n = (if n < 0 then CHR ''-'' # digits (nat (- n)) else digits (nat n))"

text \<open>
  QuoteJSONString: the double quote (0x22) and the backslash (0x5C) are escaped, the
  control characters below 0x20 are written with their short escape or as
  \<^verbatim>\<open>\u00XX\<close>, and every other character stands for itself.
\<close>

definition escape_char :: "char \<Rightarrow> string" where
  "escape_char c =
    (if c = CHR 0x22 then [CHR 0x5C, CHR 0x22]
     else if c = CHR 0x5C then [CHR 0x5C, CHR 0x5C]
     else if c = CHR 0x08 then [CHR 0x5C, CHR ''b'']
     else if c = CHR 0x0C then [CHR 0x5C, CHR ''f'']
     else if c = CHR 0x0A then [CHR 0x5C, CHR ''n'']
     else if c = CHR 0x0D then [CHR 0x5C, CHR ''r'']
     else if c = CHR 0x09 then [CHR 0x5C, CHR ''t'']
     else if (of_char c :: nat) < 32
       then [CHR 0x5C, CHR ''u'', CHR ''0'', CHR ''0'',
             digit_char (of_char c div 16), digit_char (of_char c mod 16)]
     else [c])"

definition quote :: "string \<Rightarrow> string" where
  "quote s = CHR 0x22 # concat (map escape_char s) @ [CHR 0x22]"

fun join :: "string \<Rightarrow> string list \<Rightarrow> string" where
  "join sep [] = []"
| "join sep [x] = x"
| "join sep (x # y # ys) = x @ sep @ join sep (y # ys)"

text \<open>
  \<^verbatim>\<open>JSON.stringify(v)\<close> for a value \<open>v\<close> that is an object, as in every call of the
  source. A member of an object whose value is \<^verbatim>\<open>undefined\<close> or a function is left out;
  in an array such an element is written \<^verbatim>\<open>null\<close>.
\<close>

fun omitted :: "jsval \<Rightarrow> bool" where
  "omitted JUndefined = True"
| "omitted (JFun f) = True"
| "omitted v = False"

fun JSON_stringify :: "jsval \<Rightarrow> string" where
  "JSON_stringify JUndefined = ''null''"
| "JSON_stringify (JFun f) = ''null''"
| "JSON_stringify JNull = ''null''"
| "JSON_stringify (JBool b) = (if b then ''true'' else ''false'')"
| "JSON_stringify (JNum n) = show_int n"
| "JSON_stringify (JStr s) = quote s"
| "JSON_stringify (JArr vs) = ''['' @ join '','' (map JSON_stringify vs) @ '']''"
| "JSON_stringify (JObj ps) =
     ''{'' @ join '',''
        (map (\<lambda>p. quote (fst p) @ '':'' @ JSON_stringify (snd p))
          (filter (\<lambda>p. \<not> omitted (snd p)) ps)) @ ''}''"

text \<open>
  \<^verbatim>\<open>JSON.stringify(v, null, 2)\<close>: the same with a line break and two spaces of
  indentation per nesting depth \<open>d\<close>; an object or array with nothing to print stays
  \<^verbatim>\<open>{}\<close> or \<^verbatim>\<open>[]\<close>.
\<close>

definition pad :: "nat \<Rightarrow> string" where
  "pad d = replicate (2 * d) CHR '' ''"

fun JSON_stringify_indent :: "nat \<Rightarrow> jsval \<Rightarrow> string" where
  "JSON_stringify_indent d JUndefined = ''null''"
| "JSON_stringify_indent d (JFun f) = ''null''"
| "JSON_stringify_indent d JNull = ''null''"
| "JSON_stringify_indent d (JBool b) = (if b then ''true'' else ''false'')"
| "JSON_stringify_indent d (JNum n) = show_int n"
| "JSON_stringify_indent d (JStr s) = quote s"
| "JSON_stringify_indent d (JArr vs) =
     (if vs = [] then ''[]''
      else ''['' @ [CHR 0x0A] @ pad (Suc d) @
           join ('','' @ [CHR 0x0A] @ pad (Suc d)) (map (JSON_stringify_indent (Suc d)) vs) @
           [CHR 0x0A] @ pad d @ '']'')"
| "JSON_stringify_indent d (JObj ps) =
     (let ms = map (\<lambda>p. quote (fst p) @ '': '' @ JSON_stringify_indent (Suc d) (snd p))
                 (filter (\<lambda>p. \<not> omitted (snd p)) ps)
      in if ms = [] then ''{}''
         else ''{'' @ [CHR 0x0A] @ pad (Suc d) @
              join ('','' @ [CHR 0x0A] @ pad (Suc d)) ms @
              [CHR 0x0A] @ pad d @ ''}'')"

section \<open>Object literals, spread and rest\<close>

text \<open>
  Defining a property on an object (CreateDataProperty): an existing key keeps its place
  and takes the new value, a new key goes to the end.
\<close>

fun set_prop :: "obj \<Rightarrow> string \<Rightarrow> jsval \<Rightarrow> obj" where
  "set_prop [] k v = [(k, v)]"
| "set_prop (p # ps) k v = (if fst p = k then (k, v) # ps else p # set_prop ps k v)"

text \<open>
  JavaScript enumerates the keys that are array indices (the canonical decimal form of
  a number below \<open>2\<^sup>3\<^sup>2 - 1\<close>) first, in ascending order, and then the other keys in
  the order of their creation.
\<close>

definition index_value :: "string \<Rightarrow> nat" where
  "index_value k = foldl (\<lambda>n c. 10 * n + (of_char c - 48)) 0 k"

definition is_array_index :: "string \<Rightarrow> bool" where
  "is_array_index k \<longleftrightarrow>
     k \<noteq> [] \<and> list_all (\<lambda>c. c \<in> set ''0123456789'') k \<and>
     digits (index_value k) = k \<and> index_value k < 2 ^ 32 - 1"

definition own_property_order :: "obj \<Rightarrow> obj" where
  "own_property_order ps =
     sort_key (\<lambda>p. index_value (fst p)) (filter (\<lambda>p. is_array_index (fst p)) ps) @
     filter (\<lambda>p. \<not> is_array_index (fst p)) ps"

text \<open>
  An object literal \<^verbatim>\<open>{ k1: v1, ..., ...meta }\<close> defines its properties from left to
  right; a spread defines the own enumerable properties of its operand in their order.
  The argument lists both, in the order of the source.
\<close>

definition object_literal :: "obj \<Rightarrow> obj" where
  "object_literal ps = own_property_order (foldl (\<lambda>ob p. set_prop ob (fst p) (snd p)) [] ps)"

text \<open>
  The rest of a destructuring pattern \<^verbatim>\<open>{ k1, ..., kn, ...meta }\<close>: the own enumerable
  properties but the named ones.
\<close>

definition rest_props :: "string list \<Rightarrow> obj \<Rightarrow> obj" where
  "rest_props ks ob = filter (\<lambda>p. fst p \<notin> set ks) ob"

definition Object_keys :: "obj \<Rightarrow> string list" where
  "Object_keys ob = map fst ob"

section \<open>Configuration read at start\<close>

text \<open>
  \<^verbatim>\<open>process.env\<close> maps names to strings; a name that is not set reads as
  \<^verbatim>\<open>undefined\<close>. Both \<^verbatim>\<open>undefined\<close> and the empty string are falsy, so
  \<^verbatim>\<open>process.env.X || d\<close> is \<open>d\<close> for both.

  \<^verbatim>\<open>const serviceName = process.env.CI_PROJECT_NAME || "unknown";\<close>

  \<^verbatim>\<open>const logLevel: LogLevel = (process.env.LOG_LEVEL as LogLevel) || "info";\<close>
\<close>

type_synonym env = "string \<rightharpoonup> string"

definition env_or :: "env \<Rightarrow> string \<Rightarrow> string \<Rightarrow> string" where
  "env_or e k d = (case e k of None \<Rightarrow> d | Some v \<Rightarrow> if v = [] then d else v)"

definition serviceName :: "env \<Rightarrow> string" where
  "serviceName e = env_or e ''CI_PROJECT_NAME'' ''unknown''"

definition logLevel :: "env \<Rightarrow> string" where
  "logLevel e = env_or e ''LOG_LEVEL'' ''info''"

text \<open>The host the process runs on: \<^verbatim>\<open>os.hostname()\<close> and \<^verbatim>\<open>process.pid\<close>.\<close>

record host =
  hostname :: string
  pid :: int

section \<open>Log objects and the info of a call\<close>

text \<open>
  \<^verbatim>\<open>interface StdLogObject { message: string; meta_data: { trace_id: string;
  stack: "NODE" | "GRAPHQL" | "TEMPORAL" | "REDIS"; [key: string]: any } }\<close>

  The record has the two fields of the interface; \<open>meta_data\<close> is the object the caller
  passes. The compulsory properties are part of the static type only, which is erased
  when the program runs; \<open>has_compulsory\<close> is that part of the type as a predicate.
\<close>

record StdLogObject =
  message :: string
  meta_data :: obj

definition stack_tags :: "string list" where
  "stack_tags = [''NODE'', ''GRAPHQL'', ''TEMPORAL'', ''REDIS'']"

definition has_compulsory :: "obj \<Rightarrow> bool" where
  "has_compulsory md \<longleftrightarrow>
     (case map_of md ''trace_id'' of Some (JStr t) \<Rightarrow> True | _ \<Rightarrow> False) \<and>
     (case map_of md ''stack'' of Some (JStr s) \<Rightarrow> s \<in> set stack_tags | _ \<Rightarrow> False)"

text \<open>
  The object that winston hands to a format (its \<^verbatim>\<open>TransformableInfo\<close>): \<open>level\<close> and
  \<open>message\<close>, both strings for every call of this program, and the other own enumerable
  properties in \<open>info_props\<close> (which holds neither a \<^verbatim>\<open>level\<close> nor a \<^verbatim>\<open>message\<close> key).
\<close>

record info =
  info_level :: string
  info_message :: string
  info_props :: obj

text \<open>
  Modelled from the spec: \<^verbatim>\<open>wlogger.log(level, logObject)\<close> is a call into winston, whose
  code is not among the sources. By sections 4.2 and 6 of the spec and the example
  output that the source quotes, the log object becomes the info and the level of the
  call is set on it: the message stays at the top and the metadata of the caller stays
  nested under \<^verbatim>\<open>meta_data\<close>.
\<close>

definition log_info :: "string \<Rightarrow> StdLogObject \<Rightarrow> info" where
  "log_info lvl ob =
     \<lparr>info_level = lvl, info_message = message ob,
      info_props = [(''meta_data'', JObj (meta_data ob))]\<rparr>"

text \<open>
  Modelled from the spec: \<^verbatim>\<open>format.label({ label: serviceName })\<close> is winston's, not among
  the sources. The service label of section 3 is set on the info as the property
  \<^verbatim>\<open>label\<close>, from which the formatter takes the field \<^verbatim>\<open>name\<close>.
\<close>

definition format_label :: "string \<Rightarrow> info \<Rightarrow> info" where
  "format_label l i = i\<lparr>info_props := set_prop (info_props i) ''label'' (JStr l)\<rparr>"

text \<open>
  Modelled from the spec: \<^verbatim>\<open>format.timestamp()\<close> is winston's, not among the sources. The
  time of the call, an ISO-8601 string that the model takes as the input \<open>now\<close>, is set
  on the info as the property \<^verbatim>\<open>timestamp\<close>, from which the formatter takes the field
  \<^verbatim>\<open>time\<close>.
\<close>

definition format_timestamp :: "string \<Rightarrow> info \<Rightarrow> info" where
  "format_timestamp now i = i\<lparr>info_props := set_prop (info_props i) ''timestamp'' (JStr now)\<rparr>"

section \<open>The formatters\<close>

text \<open>
  The function given to \<^verbatim>\<open>format.printf\<close> in \<^verbatim>\<open>src/src/index.ts\<close>:

  \<^verbatim>\<open>({ timestamp, level, message, label, ...meta }) => JSON.stringify({ name: label,
  hostname: os.hostname(), pid: process.pid, level: levelMap[level] || level,
  msg: message, time: timestamp, ...meta })\<close>

  \<open>wlogger_record\<close> is the object literal, \<open>wlogger_printf\<close> the line.
\<close>

definition wlogger_record :: "host \<Rightarrow> info \<Rightarrow> obj" where
  "wlogger_record h i =
     (let timestamp = js_get (info_props i) ''timestamp'';
          label = js_get (info_props i) ''label'';
          meta = rest_props [''timestamp'', ''level'', ''message'', ''label''] (info_props i)
      in object_literal
           ([(''name'', label),
             (''hostname'', JStr (hostname h)),
             (''pid'', JNum (pid h)),
             (''level'', levelNumber (info_level i)),
             (''msg'', JStr (info_message i)),
             (''time'', timestamp)] @ meta))"

definition wlogger_printf :: "host \<Rightarrow> info \<Rightarrow> string" where
  "wlogger_printf h i = JSON_stringify (JObj (wlogger_record h i))"

text \<open>
  The later revision of the file (the second file of \<^verbatim>\<open>src/unnamed/part_000\<close>) writes
  the level twice, \<^verbatim>\<open>levelNumber: levelMap[level] || level, levelName: level\<close>, and adds a
  console format. Its definitions carry a prime.
\<close>

definition wlogger_record' :: "host \<Rightarrow> info \<Rightarrow> obj" where
  "wlogger_record' h i =
     (let timestamp = js_get (info_props i) ''timestamp'';
          label = js_get (info_props i) ''label'';
          meta = rest_props [''timestamp'', ''level'', ''message'', ''label''] (info_props i)
      in object_literal
           ([(''name'', label),
             (''hostname'', JStr (hostname h)),
             (''pid'', JNum (pid h)),
             (''levelNumber'', levelNumber (info_level i)),
             (''levelName'', JStr (info_level i)),
             (''msg'', JStr (info_message i)),
             (''time'', timestamp)] @ meta))"

definition wlogger_printf' :: "host \<Rightarrow> info \<Rightarrow> string" where
  "wlogger_printf' h i = JSON_stringify (JObj (wlogger_record' h i))"

text \<open>
  \<^verbatim>\<open>format.printf(({ level, message, ...meta }) => { const metaString =
  Object.keys(meta).length ? JSON.stringify(meta, null, 2) : "";
  return `${level}: ${message} ${metaString}`; })\<close>

  \<^verbatim>\<open>consoleFormat\<close> runs \<^verbatim>\<open>format.colorize()\<close> before it, which wraps the level in the
  colour codes of the terminal; that library function is the parameter \<open>colorize\<close>.
\<close>

definition console_printf :: "info \<Rightarrow> string" where
  "console_printf i =
     (let meta = rest_props [''level'', ''message''] (info_props i);
          metaString = (if length (Object_keys meta) \<noteq> 0
                        then JSON_stringify_indent 0 (JObj meta) else [])
      in info_level i @ '': '' @ info_message i @ '' '' @ metaString)"

definition consoleFormat :: "(string \<Rightarrow> string) \<Rightarrow> info \<Rightarrow> string" where
  "consoleFormat colorize i = console_printf (i\<lparr>info_level := colorize (info_level i)\<rparr>)"

section \<open>The logger\<close>

text \<open>
  Modelled from the spec: the comparison of the level of a call with the configured
  minimum is made inside winston, which \<^verbatim>\<open>createLogger({ level: process.env.LOG_LEVEL,
  ... })\<close> configures and whose code is not among the sources. Section 3 of the spec
  orders the four levels by severity, \<^verbatim>\<open>error\<close> highest; it gives no severity to any
  other name.
\<close>

definition severity :: "string \<Rightarrow> nat option" where
  "severity lvl =
     (if lvl = ''error'' then Some 3
      else if lvl = ''warn'' then Some 2
      else if lvl = ''info'' then Some 1
      else if lvl = ''debug'' then Some 0
      else None)"

text \<open>
  Modelled from the spec: the threshold that winston takes from the option
  \<^verbatim>\<open>level: process.env.LOG_LEVEL\<close>. Section 4.3: the threshold is \<^verbatim>\<open>info\<close> when none is
  configured.
\<close>

definition min_level :: "env \<Rightarrow> string" where
  "min_level e = (case e ''LOG_LEVEL'' of None \<Rightarrow> ''info'' | Some l \<Rightarrow> l)"

text \<open>
  Modelled from the spec: winston's decision whether a call is written. Section 4.3:
  calls at or above the configured minimum severity are formatted and emitted, calls
  below are dropped. A call is emitted only when both severities are known.
\<close>

definition enabled :: "string \<Rightarrow> string \<Rightarrow> bool" where
  "enabled thr lvl =
     (case severity thr of
        None \<Rightarrow> False
      | Some t \<Rightarrow> (case severity lvl of None \<Rightarrow> False | Some l \<Rightarrow> t \<le> l))"

text \<open>
  \<^verbatim>\<open>wlogger\<close> of \<^verbatim>\<open>src/src/index.ts\<close>: the formats \<^verbatim>\<open>label\<close>, \<^verbatim>\<open>timestamp\<close> and \<^verbatim>\<open>printf\<close>
  in this order, and one stream transport on the standard output. \<open>out\<close> is what has
  been written to the stream so far, one entry per emitted call (the transport ends
  each entry with a line break); \<open>now\<close> is the time of the call. \<open>format_combine\<close> is
  the info as the two formats before \<^verbatim>\<open>printf\<close> leave it.
\<close>

definition format_combine :: "env \<Rightarrow> string \<Rightarrow> info \<Rightarrow> info" where
  "format_combine e now i = format_timestamp now (format_label (serviceName e) i)"

definition wlogger_format :: "env \<Rightarrow> host \<Rightarrow> string \<Rightarrow> info \<Rightarrow> string" where
  "wlogger_format e h now i = wlogger_printf h (format_combine e now i)"

definition wlogger_log ::
  "env \<Rightarrow> host \<Rightarrow> string \<Rightarrow> string \<Rightarrow> StdLogObject \<Rightarrow> string list \<Rightarrow> string list" where
  "wlogger_log e h now lvl ob out =
     (if enabled (min_level e) lvl then out @ [wlogger_format e h now (log_info lvl ob)]
      else out)"

text \<open>
  \<^verbatim>\<open>function logWrapper(level: string, logObject: StdLogObject) { wlogger.log(level,
  logObject); }\<close> and the four methods of \<^verbatim>\<open>logger\<close>.
\<close>

definition logWrapper ::
  "env \<Rightarrow> host \<Rightarrow> string \<Rightarrow> string \<Rightarrow> StdLogObject \<Rightarrow> string list \<Rightarrow> string list" where
  "logWrapper e h now lvl logObject out = wlogger_log e h now lvl logObject out"

definition logger_info ::
  "env \<Rightarrow> host \<Rightarrow> string \<Rightarrow> StdLogObject \<Rightarrow> string list \<Rightarrow> string list" where
  "logger_info e h now logObject out = logWrapper e h now ''info'' logObject out"

definition logger_error ::
  "env \<Rightarrow> host \<Rightarrow> string \<Rightarrow> StdLogObject \<Rightarrow> string list \<Rightarrow> string list" where
  "logger_error e h now logObject out = logWrapper e h now ''error'' logObject out"

definition logger_warn ::
  "env \<Rightarrow> host \<Rightarrow> string \<Rightarrow> StdLogObject \<Rightarrow> string list \<Rightarrow> string list" where
  "logger_warn e h now logObject out = logWrapper e h now ''warn'' logObject out"

definition logger_debug ::
  "env \<Rightarrow> host \<Rightarrow> string \<Rightarrow> StdLogObject \<Rightarrow> string list \<Rightarrow> string list" where
  "logger_debug e h now logObject out = logWrapper e h now ''debug'' logObject out"

text \<open>
  The later revision chooses its transport at start: the console with \<^verbatim>\<open>consoleFormat\<close>
  when \<^verbatim>\<open>process.env.NODE_ENV === "development"\<close>, the standard output stream otherwise.
  The format of a transport runs after the formats of the logger, so the console
  format sees the label and the timestamp among the properties of the info.
\<close>

definition wlogger_format' ::
  "(string \<Rightarrow> string) \<Rightarrow> env \<Rightarrow> host \<Rightarrow> string \<Rightarrow> info \<Rightarrow> string" where
  "wlogger_format' colorize e h now i =
     (let i' = format_combine e now i
      in if e ''NODE_ENV'' = Some ''development'' then consoleFormat colorize i'
         else wlogger_printf' h i')"

definition wlogger_log' ::
  "(string \<Rightarrow> string) \<Rightarrow> env \<Rightarrow> host \<Rightarrow> string \<Rightarrow> string \<Rightarrow> StdLogObject \<Rightarrow>
   string list \<Rightarrow> string list" where
  "wlogger_log' colorize e h now lvl ob out =
     (if enabled (min_level e) lvl
      then out @ [wlogger_format' colorize e h now (log_info lvl ob)]
      else out)"

definition logWrapper' ::
  "(string \<Rightarrow> string) \<Rightarrow> env \<Rightarrow> host \<Rightarrow> string \<Rightarrow> string \<Rightarrow> StdLogObject \<Rightarrow>
   string list \<Rightarrow> string list" where
  "logWrapper' colorize e h now lvl logObject out =
     wlogger_log' colorize e h now lvl logObject out"

section \<open>Properties of the serialiser\<close>

text \<open>
  The compact serialisation never contains a line break: a line break inside a string
  is written as the two characters backslash and n. So an entry written by the stream
  transport is a single line.
\<close>

lemma digit_char_set: "d < 16 \<Longrightarrow> digit_char d \<in> set ''0123456789abcdef''"
  unfolding digit_char_def by (rule nth_mem) simp

lemma digit_char_not_newline: "d < 16 \<Longrightarrow> digit_char d \<noteq> CHR 0x0A"
  using digit_char_set [of d] by auto

lemma digits_no_newline: "CHR 0x0A \<notin> set (digits n)"
proof (induction n rule: digits.induct)
  case (1 n)
  show ?case
  proof (cases "n < 10")
    case True
    then show ?thesis
      using digit_char_not_newline [of n] by (subst digits.simps) simp
  next
    case False
    have "n mod 10 < 16" by (simp add: less_trans [OF mod_less_divisor])
    with False 1 show ?thesis
      using digit_char_not_newline [of "n mod 10"] by (subst digits.simps) simp
  qed
qed

lemma show_int_no_newline: "CHR 0x0A \<notin> set (show_int n)"
  by (simp add: show_int_def digits_no_newline)

lemma escape_char_no_newline: "CHR 0x0A \<notin> set (escape_char c)"
proof -
  have "(of_char c :: nat) < 32 \<Longrightarrow> (of_char c :: nat) div 16 < 16" by simp
  moreover have "(of_char c :: nat) mod 16 < 16" by simp
  ultimately show ?thesis
    using digit_char_not_newline [of "of_char c div 16"]
      digit_char_not_newline [of "of_char c mod 16"]
    by (auto simp add: escape_char_def)
qed

lemma quote_no_newline: "CHR 0x0A \<notin> set (quote s)"
  by (simp add: quote_def escape_char_no_newline)

lemma join_no_newline:
  "c \<notin> set sep \<Longrightarrow> (\<And>x. x \<in> set xs \<Longrightarrow> c \<notin> set x) \<Longrightarrow> c \<notin> set (join sep xs)"
  by (induction sep xs rule: join.induct) auto

lemma JSON_stringify_no_newline: "CHR 0x0A \<notin> set (JSON_stringify v)"
proof (induction v)
  case (JArr vs)
  have "CHR 0x0A \<notin> set (join '','' (map JSON_stringify vs))"
    by (rule join_no_newline) (use JArr in auto)
  then show ?case by simp
next
  case (JObj ps)
  have "CHR 0x0A \<notin> set (join '',''
        (map (\<lambda>p. quote (fst p) @ '':'' @ JSON_stringify (snd p))
          (filter (\<lambda>p. \<not> omitted (snd p)) ps)))"
  proof (rule join_no_newline)
    show "CHR 0x0A \<notin> set '',''" by simp
  next
    fix x assume "x \<in> set (map (\<lambda>p. quote (fst p) @ '':'' @ JSON_stringify (snd p))
          (filter (\<lambda>p. \<not> omitted (snd p)) ps))"
    then obtain p where mem: "p \<in> set ps" and x: "x = quote (fst p) @ '':'' @ JSON_stringify (snd p)"
      by auto
    have "snd p \<in> Basic_BNFs.snds p" by (cases p) simp
    with JObj mem have "CHR 0x0A \<notin> set (JSON_stringify (snd p))" by blast
    with x show "CHR 0x0A \<notin> set x" by (simp add: quote_no_newline)
  qed
  then show ?case by simp
qed (simp_all add: show_int_no_newline quote_no_newline)

section \<open>Properties of object literals\<close>

text \<open>
  Looking a key up in an object literal gives the value of its last definition:
  the properties of a spread at the end win over the properties written before it.
\<close>

lemma map_of_set_prop: "map_of (set_prop ob k v) = (map_of ob)(k \<mapsto> v)"
  by (induction ob k v rule: set_prop.induct) (auto simp add: fun_eq_iff)

lemma keys_set_prop: "set (map fst (set_prop ob k v)) = insert k (set (map fst ob))"
  by (induction ob k v rule: set_prop.induct) auto

lemma distinct_set_prop:
  "distinct (map fst ob) \<Longrightarrow> distinct (map fst (set_prop ob k v))"
proof (induction ob k v rule: set_prop.induct)
  case (1 k v)
  show ?case by simp
next
  case (2 p ps k v)
  show ?case
  proof (cases "fst p = k")
    case True
    with 2 show ?thesis by simp
  next
    case False
    with 2 have "distinct (map fst (set_prop ps k v))" by simp
    moreover from 2 False have "fst p \<notin> set (map fst (set_prop ps k v))"
      by (simp only: keys_set_prop) auto
    ultimately show ?thesis using False by simp
  qed
qed

lemma map_of_define_all:
  "map_of (foldl (\<lambda>ob p. set_prop ob (fst p) (snd p)) acc ps) = map_of acc ++ map_of (rev ps)"
proof (induction ps arbitrary: acc)
  case Nil
  show ?case by simp
next
  case (Cons p ps)
  have "map_of (set_prop acc (fst p) (snd p)) ++ map_of (rev ps) =
        map_of acc ++ (map_of [p] ++ map_of (rev ps))"
    by (cases p) (auto simp add: map_of_set_prop fun_eq_iff map_add_def split: option.split)
  then show ?case by (simp add: Cons.IH)
qed

lemma distinct_define_all:
  "distinct (map fst acc) \<Longrightarrow>
   distinct (map fst (foldl (\<lambda>ob p. set_prop ob (fst p) (snd p)) acc ps))"
  by (induction ps arbitrary: acc) (simp_all add: distinct_set_prop)

lemma set_own_property_order: "set (own_property_order ps) = set ps"
  by (auto simp add: own_property_order_def)

lemma distinct_own_property_order:
  assumes "distinct (map fst ps)"
  shows "distinct (map fst (own_property_order ps))"
proof -
  let ?A = "filter (\<lambda>p. is_array_index (fst p)) ps"
  let ?B = "filter (\<lambda>p. \<not> is_array_index (fst p)) ps"
  from assms have dA: "distinct (map fst ?A)" and dB: "distinct (map fst ?B)"
    by (simp_all add: distinct_map_filter)
  have "distinct (map fst (sort_key (\<lambda>p. index_value (fst p)) ?A))"
    using dA by (simp add: distinct_map)
  moreover have "fst ` set ?A \<inter> fst ` set ?B = {}" by auto
  ultimately show ?thesis using dB by (simp add: own_property_order_def)
qed

lemma map_of_own_property_order:
  assumes "distinct (map fst ps)"
  shows "map_of (own_property_order ps) = map_of ps"
  using assms distinct_own_property_order [OF assms]
  by (simp add: map_of_inject_set set_own_property_order)

lemma map_of_object_literal: "map_of (object_literal ps) = map_of (rev ps)"
proof -
  have "distinct (map fst (foldl (\<lambda>ob p. set_prop ob (fst p) (snd p)) [] ps))"
    by (rule distinct_define_all) simp
  then show ?thesis
    by (simp add: object_literal_def map_of_own_property_order map_of_define_all)
qed

lemma map_of_rev_distinct:
  assumes "distinct (map fst ps)"
  shows "map_of (rev ps) = map_of ps"
proof -
  have "map fst (rev ps) = rev (map fst ps)" by (simp add: rev_map)
  with assms have "distinct (map fst (rev ps))" by simp
  then show ?thesis using assms by (simp add: map_of_inject_set)
qed

lemma map_of_rest_props: "k \<notin> set ks \<Longrightarrow> map_of (rest_props ks ob) k = map_of ob k"
  by (induction ob) (auto simp add: rest_props_def)

lemma distinct_rest_props: "distinct (map fst ob) \<Longrightarrow> distinct (map fst (rest_props ks ob))"
  by (simp add: rest_props_def distinct_map_filter)

lemma wlogger_record_msg:
  assumes "distinct (map fst (info_props i))"
  shows "map_of (wlogger_record h i) ''msg'' =
         Some (case map_of (info_props i) ''msg'' of
                 None \<Rightarrow> JStr (info_message i) | Some v \<Rightarrow> v)"
proof -
  let ?meta = "rest_props [''timestamp'', ''level'', ''message'', ''label''] (info_props i)"
  have m: "map_of (rev ?meta) ''msg'' = map_of (info_props i) ''msg''"
    using assms by (simp add: map_of_rev_distinct distinct_rest_props map_of_rest_props)
  show ?thesis
    by (simp add: wlogger_record_def Let_def map_of_object_literal map_add_def m
        split: option.split)
qed

section \<open>The record of a call through the typed interface\<close>

lemma not_index_alpha: "c \<notin> set ''0123456789'' \<Longrightarrow> \<not> is_array_index (c # cs)"
  by (simp add: is_array_index_def)

lemma typed_record:
  "wlogger_record h (format_combine e now (log_info lvl ob)) =
     [(''name'', JStr (serviceName e)), (''hostname'', JStr (hostname h)), (''pid'', JNum (pid h)),
      (''level'', levelNumber lvl), (''msg'', JStr (message ob)), (''time'', JStr now),
      (''meta_data'', JObj (meta_data ob))]"
  by (simp add: wlogger_record_def format_combine_def format_timestamp_def format_label_def log_info_def
      js_get_def rest_props_def object_literal_def own_property_order_def not_index_alpha)

lemma typed_record':
  "wlogger_record' h (format_combine e now (log_info lvl ob)) =
     [(''name'', JStr (serviceName e)), (''hostname'', JStr (hostname h)), (''pid'', JNum (pid h)),
      (''levelNumber'', levelNumber lvl), (''levelName'', JStr lvl), (''msg'', JStr (message ob)), (''time'', JStr now),
      (''meta_data'', JObj (meta_data ob))]"
  by (simp add: wlogger_record'_def format_combine_def format_timestamp_def format_label_def log_info_def
      js_get_def rest_props_def object_literal_def own_property_order_def not_index_alpha)

section \<open>The line of a call\<close>

lemma levelNumber_info: "levelNumber ''info'' = JNum 30"
  by (simp add: levelNumber_def js_get_def js_or_def levelMap_def)

lemma levelNumber_error: "levelNumber ''error'' = JNum 50"
  by (simp add: levelNumber_def js_get_def js_or_def levelMap_def)

lemma show_int_30: "show_int 30 = ''30''"
  by (simp add: show_int_def digits.simps digit_char_def)

lemma show_int_50: "show_int 50 = ''50''"
  by (simp add: show_int_def digits.simps digit_char_def)

lemma serviceName_set: "e ''CI_PROJECT_NAME'' = Some n \<Longrightarrow> n \<noteq> [] \<Longrightarrow> serviceName e = n"
  by (simp add: serviceName_def env_or_def)

lemma wlogger_format_typed:
  "wlogger_format e h now (log_info lvl ob) =
     JSON_stringify (JObj
       [(''name'', JStr (serviceName e)), (''hostname'', JStr (hostname h)),
        (''pid'', JNum (pid h)), (''level'', levelNumber lvl), (''msg'', JStr (message ob)),
        (''time'', JStr now), (''meta_data'', JObj (meta_data ob))])"
  by (simp only: wlogger_format_def wlogger_printf_def typed_record)

lemma wlogger_format_no_newline: "CHR 0x0A \<notin> set (wlogger_format e h now i)"
  unfolding wlogger_format_def wlogger_printf_def by (rule JSON_stringify_no_newline)

lemma logWrapper_enabled:
  "enabled (min_level e) lvl \<Longrightarrow>
   logWrapper e h now lvl ob out = out @ [wlogger_format e h now (log_info lvl ob)]"
  by (simp add: logWrapper_def wlogger_log_def)

lemma logWrapper_disabled:
  "\<not> enabled (min_level e) lvl \<Longrightarrow> logWrapper e h now lvl ob out = out"
  by (simp add: logWrapper_def wlogger_log_def)


lemma levelNumber_four:
  assumes "lvl \<in> set [''info'', ''error'', ''warn'', ''debug'']"
  shows "\<exists>n. levelNumber lvl = JNum n \<and> n \<noteq> 0"
  using assms by (auto simp add: levelNumber_def js_get_def js_or_def levelMap_def)

lemma enabled_info_debug: "\<not> enabled ''info'' ''debug''"
  by (simp add: enabled_def severity_def)

lemma enabled_info_error: "enabled ''info'' ''error''"
  by (simp add: enabled_def severity_def)

lemma enabled_info_info: "enabled ''info'' ''info''"
  by (simp add: enabled_def severity_def)

lemma min_level_unset: "e ''LOG_LEVEL'' = None \<Longrightarrow> min_level e = ''info''"
  by (simp add: min_level_def)

lemma serviceName_unset: "e ''CI_PROJECT_NAME'' = None \<Longrightarrow> serviceName e = ''unknown''"
  by (simp add: serviceName_def env_or_def)

lemma show_int_1: "show_int 1 = ''1''"
  by (simp add: show_int_def digits.simps digit_char_def)

lemma console_printf_eq:
  "console_printf i =
     info_level i @ '': '' @ info_message i @ '' '' @
     (if rest_props [''level'', ''message''] (info_props i) = [] then []
      else JSON_stringify_indent 0 (JObj (rest_props [''level'', ''message''] (info_props i))))"
  by (simp add: console_printf_def Object_keys_def Let_def)

text \<open>
  The call of the usage section of \<^verbatim>\<open>src/src/index.ts\<close>, with the values of the
  example output that the source quotes in its comment: the model writes that line,
  character for character.
\<close>

lemma source_example_output:
  \<open>logger_info [''CI_PROJECT_NAME'' \<mapsto> ''sb-logger-project'']
     \<lparr>hostname = ''osName...'', pid = 87395\<rparr> ''2024-08-14T11:16:51.678Z''
     \<lparr>message = ''Hello info'',
      meta_data = [(''trace_id'', JStr ''123''), (''stack'', JStr ''NODE''),
                   (''wret'', JStr ''wert'')]\<rparr> [] =
   [''{"name":"sb-logger-project","hostname":"osName...","pid":87395,"level":30,"msg":"Hello info","time":"2024-08-14T11:16:51.678Z","meta_data":{"trace_id":"123","stack":"NODE","wret":"wert"}}'']\<close>
proof -
  have en: "enabled (min_level [''CI_PROJECT_NAME'' \<mapsto> ''sb-logger-project'']) ''info''"
    by (simp add: min_level_def enabled_info_info)
  have name: "serviceName [''CI_PROJECT_NAME'' \<mapsto> ''sb-logger-project''] = ''sb-logger-project''"
    by (simp add: serviceName_set)
  have pid: "show_int 87395 = ''87395''"
    by (simp add: show_int_def digits.simps digit_char_def)
  show ?thesis
    by (simp add: logger_info_def logWrapper_enabled [OF en] wlogger_format_typed name
        levelNumber_info quote_def escape_char_def show_int_30 pid)
qed

section \<open>The later revision: two level fields and the console\<close>

text \<open>
  In the later revision a call in structured mode carries \<^verbatim>\<open>levelNumber\<close> and
  \<^verbatim>\<open>levelName\<close> in place of \<^verbatim>\<open>level\<close>. In console mode the console format runs on the
  info that the formats of the logger have already extended, so for a call through the
  logger its \<^verbatim>\<open>meta\<close> always holds \<^verbatim>\<open>meta_data\<close>, \<^verbatim>\<open>label\<close> and \<^verbatim>\<open>timestamp\<close>.
\<close>

lemma logWrapper'_structured:
  assumes "e ''NODE_ENV'' \<noteq> Some ''development''" and "enabled (min_level e) lvl"
  shows "logWrapper' colorize e h now lvl ob out =
         out @ [JSON_stringify (JObj
           [(''name'', JStr (serviceName e)), (''hostname'', JStr (hostname h)),
            (''pid'', JNum (pid h)), (''levelNumber'', levelNumber lvl),
            (''levelName'', JStr lvl), (''msg'', JStr (message ob)), (''time'', JStr now),
            (''meta_data'', JObj (meta_data ob))])]"
  using assms
  by (simp add: logWrapper'_def wlogger_log'_def wlogger_format'_def wlogger_printf'_def
      typed_record')

lemma logWrapper'_console:
  assumes "e ''NODE_ENV'' = Some ''development''" and "enabled (min_level e) lvl"
  shows "logWrapper' colorize e h now lvl ob out =
         out @ [colorize lvl @ '': '' @ message ob @ '' '' @
           JSON_stringify_indent 0 (JObj
             [(''meta_data'', JObj (meta_data ob)), (''label'', JStr (serviceName e)),
              (''timestamp'', JStr now)])]"
  using assms
  by (simp add: logWrapper'_def wlogger_log'_def wlogger_format'_def consoleFormat_def
      console_printf_eq format_combine_def format_timestamp_def format_label_def
      log_info_def rest_props_def)

lemma pad_0: "pad 0 = []"
  by (simp add: pad_def)

lemma pad_1: "pad (Suc 0) = ''  ''"
  by (simp add: pad_def numeral_2_eq_2)

lemma console_block_value:
  assumes "\<not> omitted v"
  shows \<open>JSON_stringify_indent 0 (JObj
     [(''meta_data'', v), (''label'', JStr l), (''timestamp'', JStr now)]) =
   ''{'' @ [CHR 0x0A] @ ''  "meta_data": '' @ JSON_stringify_indent 1 v @
   '','' @ [CHR 0x0A] @ ''  "label": '' @ quote l @
   '','' @ [CHR 0x0A] @ ''  "timestamp": '' @ quote now @ [CHR 0x0A] @ ''}''\<close>
  using assms by (simp add: pad_0 pad_1 quote_def escape_char_def)

lemma console_block:
  \<open>JSON_stringify_indent 0 (JObj
     [(''meta_data'', JObj md), (''label'', JStr l), (''timestamp'', JStr now)]) =
   ''{'' @ [CHR 0x0A] @ ''  "meta_data": '' @ JSON_stringify_indent 1 (JObj md) @
   '','' @ [CHR 0x0A] @ ''  "label": '' @ quote l @
   '','' @ [CHR 0x0A] @ ''  "timestamp": '' @ quote now @ [CHR 0x0A] @ ''}''\<close>
  by (rule console_block_value) simp

lemma logWrapper'_hello:
  assumes "e ''NODE_ENV'' \<noteq> Some ''development''" and "enabled (min_level e) ''info''"
    and "e ''CI_PROJECT_NAME'' = Some ''svc''"
  shows \<open>logWrapper' colorize e h now ''info''
     \<lparr>message = ''Hello info'',
      meta_data = [(''trace_id'', JStr ''123''), (''stack'', JStr ''NODE''),
                   (''wret'', JStr ''wert'')]\<rparr> out =
     out @ [''{"name":"svc","hostname":'' @ quote (hostname h) @ '',"pid":'' @
            show_int (pid h) @
            '',"levelNumber":30,"levelName":"info","msg":"Hello info","time":'' @
            quote now @ '',"meta_data":{"trace_id":"123","stack":"NODE","wret":"wert"}}'']\<close>
proof -
  from assms(3) have name: "serviceName e = ''svc''" by (simp add: serviceName_set)
  show ?thesis
    by (simp add: logWrapper'_structured [OF assms(1,2)] name levelNumber_info
        quote_def escape_char_def show_int_30)
qed

section \<open>The level table: results\<close>

lemma levelNumber_own:
  "map_of levelMap lvl = Some (JNum n) \<Longrightarrow> n \<noteq> 0 \<Longrightarrow> levelNumber lvl = JNum n"
  by (simp add: levelNumber_def js_get_def js_or_def)

lemma levelNumber_passthrough:
  assumes "lvl \<notin> fst ` set levelMap" and "lvl \<notin> fst ` set Object_prototype"
  shows "levelNumber lvl = JStr lvl"
proof -
  from assms(1) have own: "map_of levelMap lvl = None"
    by (simp add: map_of_eq_None_iff)
  from assms(2) have inh: "map_of Object_prototype lvl = None"
    by (simp add: map_of_eq_None_iff)
  show ?thesis
    by (simp add: levelNumber_def js_get_def js_or_def own inh)
qed

section \<open>The claims\<close>

text \<open>
  Claim C1. Each of the four level names of the table maps to its fixed code:
  \<^verbatim>\<open>error\<close> to 50, \<^verbatim>\<open>warn\<close> to 40, \<^verbatim>\<open>info\<close> to 30 and \<^verbatim>\<open>debug\<close> to 20.
\<close>

theorem levelNumber_codes:
  "levelNumber ''error'' = JNum 50 \<and> levelNumber ''warn'' = JNum 40 \<and>
   levelNumber ''info'' = JNum 30 \<and> levelNumber ''debug'' = JNum 20"
  by (simp add: levelNumber_def js_get_def js_or_def levelMap_def)



text \<open>
  Claim C3. A string that is none of the four level names should come back unchanged.
  That holds for \<^verbatim>\<open>trace\<close>, for \<^verbatim>\<open>ERROR\<close> and for every name that \<^verbatim>\<open>Object.prototype\<close>
  does not define (\<open>levelNumber_passthrough\<close>). It fails for the inherited names: the
  lookup \<^verbatim>\<open>levelMap["constructor"]\<close> finds the function \<^verbatim>\<open>Object\<close> on the prototype,
  which is truthy, so the expression yields that function and not the string.
\<close>

theorem levelNumber_constructor:
  "levelNumber ''constructor'' = JFun ''Object'' \<and>
   levelNumber ''constructor'' \<noteq> JStr ''constructor'' \<and>
   levelNumber ''trace'' = JStr ''trace'' \<and>
   levelNumber ''ERROR'' = JStr ''ERROR''"
  by (simp add: levelNumber_def js_get_def js_or_def levelMap_def Object_prototype_def)

text \<open>
  Claim C4. The claim asks that a call whose metadata lacks \<^verbatim>\<open>trace_id\<close> or \<^verbatim>\<open>stack\<close> be
  rejected as a contract violation. The source has no such check: the two properties
  are compulsory in the static type \<^verbatim>\<open>StdLogObject\<close> only, which \<^verbatim>\<open>logWrapper\<close> exists to
  enforce at compile time. At run time a call whose metadata lacks them, at a level
  that the threshold lets through, is not rejected: it writes one record, with the
  metadata nested under \<^verbatim>\<open>meta_data\<close> as it was given.
\<close>

theorem logWrapper_no_runtime_check:
  assumes "\<not> has_compulsory (meta_data ob)" and "enabled (min_level e) lvl"
  shows "logWrapper e h now lvl ob out =
         out @ [JSON_stringify (JObj
           [(''name'', JStr (serviceName e)), (''hostname'', JStr (hostname h)),
            (''pid'', JNum (pid h)), (''level'', levelNumber lvl),
            (''msg'', JStr (message ob)), (''time'', JStr now),
            (''meta_data'', JObj (meta_data ob))])]"
  using assms(2) by (simp only: logWrapper_enabled wlogger_format_typed)

theorem logWrapper_no_runtime_check_witness:
  \<open>\<not> has_compulsory [(''wret'', JStr ''wert'')] \<and> enabled (min_level Map.empty) ''error'' \<and>
   logWrapper Map.empty \<lparr>hostname = ''h'', pid = 1\<rparr> ''t'' ''error''
     \<lparr>message = ''m'', meta_data = [(''wret'', JStr ''wert'')]\<rparr> [] =
   [''{"name":"unknown","hostname":"h","pid":1,"level":50,"msg":"m","time":"t","meta_data":{"wret":"wert"}}'']\<close>
proof -
  have a: "\<not> has_compulsory (meta_data \<lparr>message = ''m'', meta_data = [(''wret'', JStr ''wert'')]\<rparr>)"
    by (simp add: has_compulsory_def)
  have b: "enabled (min_level Map.empty) ''error''"
    by (simp add: min_level_def enabled_info_error)
  have name: "serviceName Map.empty = ''unknown''" by (simp add: serviceName_unset)
  show ?thesis
    using logWrapper_no_runtime_check [OF a b, of "\<lparr>hostname = ''h'', pid = 1\<rparr>" "''t''" "[]"] a b
    by (simp add: name levelNumber_error quote_def escape_char_def show_int_1 show_int_50)
qed

text \<open>
  The claim as the spec words it fails on the call with the message \<^verbatim>\<open>m\<close> and the empty
  metadata: nothing is reported, and the record is written.
\<close>

theorem logWrapper_missing_keys_counterexample:
  \<open>\<not> has_compulsory (meta_data \<lparr>message = ''m'', meta_data = []\<rparr>) \<and>
   logWrapper Map.empty \<lparr>hostname = ''h'', pid = 1\<rparr> ''t'' ''info''
     \<lparr>message = ''m'', meta_data = []\<rparr> [] =
   [''{"name":"unknown","hostname":"h","pid":1,"level":30,"msg":"m","time":"t","meta_data":{}}'']\<close>
proof -
  have en: "enabled (min_level Map.empty) ''info''"
    by (simp add: min_level_def enabled_info_info)
  have name: "serviceName Map.empty = ''unknown''" by (simp add: serviceName_unset)
  show ?thesis
    by (simp add: has_compulsory_def logWrapper_enabled [OF en] wlogger_format_typed name
        levelNumber_info quote_def escape_char_def show_int_1 show_int_30)
qed

text \<open>
  Claim C5. With the minimum level \<^verbatim>\<open>info\<close> (configured, or by default), a call of
  \<^verbatim>\<open>logger.debug\<close> writes nothing, and a call of \<^verbatim>\<open>logger.error\<close> writes exactly one
  entry, which is a single line. The comparison of levels is the one modelled from
  section 4.3 of the spec; the entry is the line of the formatter of the source.
\<close>

theorem threshold_info:
  assumes "min_level e = ''info''"
  shows "logger_debug e h now ob out = out \<and>
         logger_error e h now ob out = out @ [wlogger_format e h now (log_info ''error'' ob)] \<and>
         length (logger_error e h now ob out) = Suc (length out) \<and>
         CHR 0x0A \<notin> set (wlogger_format e h now (log_info ''error'' ob))"
  using assms
  by (simp add: logger_debug_def logger_error_def logWrapper_enabled logWrapper_disabled
      enabled_info_debug enabled_info_error wlogger_format_no_newline)

theorem threshold_info_witness:
  \<open>min_level [''LOG_LEVEL'' \<mapsto> ''info''] = ''info'' \<and>
   logger_debug [''LOG_LEVEL'' \<mapsto> ''info''] \<lparr>hostname = ''h'', pid = 1\<rparr> ''t''
     \<lparr>message = ''Hello debug'', meta_data = [(''trace_id'', JStr ''123''), (''stack'', JStr ''NODE'')]\<rparr> [] = [] \<and>
   logger_error [''LOG_LEVEL'' \<mapsto> ''info''] \<lparr>hostname = ''h'', pid = 1\<rparr> ''t''
     \<lparr>message = ''Hello error'', meta_data = [(''trace_id'', JStr ''123''), (''stack'', JStr ''NODE'')]\<rparr> [] =
   [''{"name":"unknown","hostname":"h","pid":1,"level":50,"msg":"Hello error","time":"t","meta_data":{"trace_id":"123","stack":"NODE"}}'']\<close>
proof -
  have a: "min_level [''LOG_LEVEL'' \<mapsto> ''info''] = ''info''" by (simp add: min_level_def)
  have name: "serviceName [''LOG_LEVEL'' \<mapsto> ''info''] = ''unknown''"
    by (simp add: serviceName_unset)
  show ?thesis
    using threshold_info [OF a, of "\<lparr>hostname = ''h'', pid = 1\<rparr>" "''t''" _ "[]"] a
    by (simp add: wlogger_format_typed name levelNumber_error quote_def escape_char_def
        show_int_1 show_int_50)
qed

text \<open>
  Claim C6. A call through \<^verbatim>\<open>logger.info\<close>, \<^verbatim>\<open>error\<close>, \<^verbatim>\<open>warn\<close> or \<^verbatim>\<open>debug\<close> passes the
  whole metadata as the single property \<^verbatim>\<open>meta_data\<close> of the info. So whatever keys the
  metadata has, a key \<^verbatim>\<open>msg\<close> included, the \<^verbatim>\<open>msg\<close> field of the record is the message
  argument, and \<^verbatim>\<open>name\<close>, \<^verbatim>\<open>hostname\<close>, \<^verbatim>\<open>pid\<close>, the level field (in the later revision
  \<^verbatim>\<open>levelNumber\<close> and \<^verbatim>\<open>levelName\<close>) and \<^verbatim>\<open>time\<close> are the values the logger gives them;
  the colliding values stay where the caller put them, under \<^verbatim>\<open>meta_data\<close>. The instance
  after the theorem is a call whose metadata has the keys \<^verbatim>\<open>msg\<close> and \<^verbatim>\<open>pid\<close>.
\<close>

theorem reserved_fields_kept:
  "map_of (wlogger_record h (format_combine e now (log_info lvl ob))) ''msg'' =
     Some (JStr (message ob)) \<and>
   map_of (wlogger_record h (format_combine e now (log_info lvl ob))) ''name'' =
     Some (JStr (serviceName e)) \<and>
   map_of (wlogger_record h (format_combine e now (log_info lvl ob))) ''hostname'' =
     Some (JStr (hostname h)) \<and>
   map_of (wlogger_record h (format_combine e now (log_info lvl ob))) ''pid'' =
     Some (JNum (pid h)) \<and>
   map_of (wlogger_record h (format_combine e now (log_info lvl ob))) ''level'' =
     Some (levelNumber lvl) \<and>
   map_of (wlogger_record h (format_combine e now (log_info lvl ob))) ''time'' =
     Some (JStr now) \<and>
   map_of (wlogger_record h (format_combine e now (log_info lvl ob))) ''meta_data'' =
     Some (JObj (meta_data ob)) \<and>
   map_of (wlogger_record' h (format_combine e now (log_info lvl ob))) ''msg'' =
     Some (JStr (message ob)) \<and>
   map_of (wlogger_record' h (format_combine e now (log_info lvl ob))) ''name'' =
     Some (JStr (serviceName e)) \<and>
   map_of (wlogger_record' h (format_combine e now (log_info lvl ob))) ''hostname'' =
     Some (JStr (hostname h)) \<and>
   map_of (wlogger_record' h (format_combine e now (log_info lvl ob))) ''pid'' =
     Some (JNum (pid h)) \<and>
   map_of (wlogger_record' h (format_combine e now (log_info lvl ob))) ''levelNumber'' =
     Some (levelNumber lvl) \<and>
   map_of (wlogger_record' h (format_combine e now (log_info lvl ob))) ''levelName'' =
     Some (JStr lvl) \<and>
   map_of (wlogger_record' h (format_combine e now (log_info lvl ob))) ''time'' =
     Some (JStr now) \<and>
   map_of (wlogger_record' h (format_combine e now (log_info lvl ob))) ''meta_data'' =
     Some (JObj (meta_data ob))"
  by (simp add: typed_record typed_record')

theorem reserved_fields_kept_witness:
  \<open>map_of (meta_data \<lparr>message = ''Hello info'',
       meta_data = [(''trace_id'', JStr ''123''), (''stack'', JStr ''NODE''),
                    (''msg'', JStr ''other''), (''pid'', JNum 7)]\<rparr>) ''msg'' =
     Some (JStr ''other'') \<and>
   map_of (wlogger_record \<lparr>hostname = ''h'', pid = 1\<rparr>
     (format_combine Map.empty ''t'' (log_info ''info''
        \<lparr>message = ''Hello info'',
         meta_data = [(''trace_id'', JStr ''123''), (''stack'', JStr ''NODE''),
                      (''msg'', JStr ''other''), (''pid'', JNum 7)]\<rparr>))) ''msg'' =
     Some (JStr ''Hello info'') \<and>
   map_of (wlogger_record \<lparr>hostname = ''h'', pid = 1\<rparr>
     (format_combine Map.empty ''t'' (log_info ''info''
        \<lparr>message = ''Hello info'',
         meta_data = [(''trace_id'', JStr ''123''), (''stack'', JStr ''NODE''),
                      (''msg'', JStr ''other''), (''pid'', JNum 7)]\<rparr>))) ''pid'' =
     Some (JNum 1) \<and>
   logger_info Map.empty \<lparr>hostname = ''h'', pid = 1\<rparr> ''t''
     \<lparr>message = ''Hello info'',
      meta_data = [(''trace_id'', JStr ''123''), (''stack'', JStr ''NODE''),
                   (''msg'', JStr ''other''), (''pid'', JNum 7)]\<rparr> [] =
   [''{"name":"unknown","hostname":"h","pid":1,"level":30,"msg":"Hello info","time":"t","meta_data":{"trace_id":"123","stack":"NODE","msg":"other","pid":7}}'']\<close>
proof -
  have en: "enabled (min_level Map.empty) ''info''"
    by (simp add: min_level_def enabled_info_info)
  have name: "serviceName Map.empty = ''unknown''" by (simp add: serviceName_unset)
  have seven: "show_int 7 = ''7''" by (simp add: show_int_def digits.simps digit_char_def)
  have line: \<open>logger_info Map.empty \<lparr>hostname = ''h'', pid = 1\<rparr> ''t''
     \<lparr>message = ''Hello info'',
      meta_data = [(''trace_id'', JStr ''123''), (''stack'', JStr ''NODE''),
                   (''msg'', JStr ''other''), (''pid'', JNum 7)]\<rparr> [] =
   [''{"name":"unknown","hostname":"h","pid":1,"level":30,"msg":"Hello info","time":"t","meta_data":{"trace_id":"123","stack":"NODE","msg":"other","pid":7}}'']\<close>
    by (simp add: logger_info_def logWrapper_enabled [OF en] wlogger_format_typed name
        levelNumber_info quote_def escape_char_def show_int_1 show_int_30 seven)
  show ?thesis
    using reserved_fields_kept [of "\<lparr>hostname = ''h'', pid = 1\<rparr>" Map.empty "''t''" "''info''"
        "\<lparr>message = ''Hello info'',
         meta_data = [(''trace_id'', JStr ''123''), (''stack'', JStr ''NODE''),
                      (''msg'', JStr ''other''), (''pid'', JNum 7)]\<rparr>"] line
    by simp
qed

text \<open>
  Claim C7. The claim asks that a console line be exactly the level, a colon, the
  message and at most one space when the call has no extra metadata. The source prints
  the remaining properties of the info after the message, and for a call through the
  logger there always are some: the formats of the logger have set \<^verbatim>\<open>label\<close> and
  \<^verbatim>\<open>timestamp\<close> before the console format runs, and the metadata of the caller is the
  property \<^verbatim>\<open>meta_data\<close>. So in console mode every emitted entry is the (colorized)
  level, a colon and a space, the message, a space, and the object holding
  \<^verbatim>\<open>meta_data\<close>, \<^verbatim>\<open>label\<close> and \<^verbatim>\<open>timestamp\<close>, pretty-printed with two spaces of
  indentation; it is neither of the two bare forms, whatever the metadata.
\<close>

theorem console_line_of_call:
  assumes "e ''NODE_ENV'' = Some ''development''" and "enabled (min_level e) lvl"
  shows \<open>logWrapper' colorize e h now lvl ob out =
         out @ [colorize lvl @ '': '' @ message ob @ '' {'' @ [CHR 0x0A] @
           ''  "meta_data": '' @ JSON_stringify_indent 1 (JObj (meta_data ob)) @
           '','' @ [CHR 0x0A] @ ''  "label": '' @ quote (serviceName e) @
           '','' @ [CHR 0x0A] @ ''  "timestamp": '' @ quote now @ [CHR 0x0A] @ ''}''] \<and>
         logWrapper' colorize e h now lvl ob out \<noteq>
           out @ [colorize lvl @ '': '' @ message ob @ '' ''] \<and>
         logWrapper' colorize e h now lvl ob out \<noteq>
           out @ [colorize lvl @ '': '' @ message ob]\<close>
  by (simp add: logWrapper'_console [OF assms] console_block del: JSON_stringify_indent.simps)

theorem console_line_of_call_witness:
  \<open>[''NODE_ENV'' \<mapsto> ''development''] ''NODE_ENV'' = Some ''development'' \<and>
   enabled (min_level [''NODE_ENV'' \<mapsto> ''development'']) ''info'' \<and>
   logWrapper' (\<lambda>s. s) [''NODE_ENV'' \<mapsto> ''development''] \<lparr>hostname = ''h'', pid = 1\<rparr>
     ''t'' ''info'' \<lparr>message = ''Hello info'', meta_data = []\<rparr> [] =
   [''info: Hello info {'' @ [CHR 0x0A] @
    ''  "meta_data": {},'' @ [CHR 0x0A] @
    ''  "label": "unknown",'' @ [CHR 0x0A] @
    ''  "timestamp": "t"'' @ [CHR 0x0A] @
    ''}'']\<close>
proof -
  have a: "[''NODE_ENV'' \<mapsto> ''development''] ''NODE_ENV'' = Some ''development''" by simp
  have b: "enabled (min_level [''NODE_ENV'' \<mapsto> ''development'']) ''info''"
    by (simp add: min_level_def enabled_info_info)
  have name: "serviceName [''NODE_ENV'' \<mapsto> ''development''] = ''unknown''"
    by (simp add: serviceName_unset)
  show ?thesis
    using console_line_of_call [OF a b, of "\<lambda>s. s" "\<lparr>hostname = ''h'', pid = 1\<rparr>" "''t''"
        "\<lparr>message = ''Hello info'', meta_data = []\<rparr>" "[]"] a b
    by (simp add: name pad_0 pad_1 quote_def escape_char_def)
qed

text \<open>
  The claim as the spec words it fails on the call with the message \<^verbatim>\<open>Hello info\<close> and
  the metadata \<^verbatim>\<open>trace_id: "123"\<close>, \<^verbatim>\<open>stack: "NODE"\<close>, which has no extra key: the entry
  carries the block and is neither \<^verbatim>\<open>info: Hello info\<close> nor that with a space after it
  (the level is left without colour codes here).
\<close>

theorem console_line_counterexample:
  \<open>logWrapper' (\<lambda>s. s) [''NODE_ENV'' \<mapsto> ''development''] \<lparr>hostname = ''h'', pid = 1\<rparr>
     ''t'' ''info''
     \<lparr>message = ''Hello info'',
      meta_data = [(''trace_id'', JStr ''123''), (''stack'', JStr ''NODE'')]\<rparr> [] =
   [''info: Hello info {'' @ [CHR 0x0A] @
    ''  "meta_data": {'' @ [CHR 0x0A] @
    ''    "trace_id": "123",'' @ [CHR 0x0A] @
    ''    "stack": "NODE"'' @ [CHR 0x0A] @
    ''  },'' @ [CHR 0x0A] @
    ''  "label": "unknown",'' @ [CHR 0x0A] @
    ''  "timestamp": "t"'' @ [CHR 0x0A] @
    ''}''] \<and>
   logWrapper' (\<lambda>s. s) [''NODE_ENV'' \<mapsto> ''development''] \<lparr>hostname = ''h'', pid = 1\<rparr>
     ''t'' ''info''
     \<lparr>message = ''Hello info'',
      meta_data = [(''trace_id'', JStr ''123''), (''stack'', JStr ''NODE'')]\<rparr> [] \<noteq>
   [''info: Hello info ''] \<and>
   logWrapper' (\<lambda>s. s) [''NODE_ENV'' \<mapsto> ''development''] \<lparr>hostname = ''h'', pid = 1\<rparr>
     ''t'' ''info''
     \<lparr>message = ''Hello info'',
      meta_data = [(''trace_id'', JStr ''123''), (''stack'', JStr ''NODE'')]\<rparr> [] \<noteq>
   [''info: Hello info'']\<close>
proof -
  have a: "[''NODE_ENV'' \<mapsto> ''development''] ''NODE_ENV'' = Some ''development''" by simp
  have b: "enabled (min_level [''NODE_ENV'' \<mapsto> ''development'']) ''info''"
    by (simp add: min_level_def enabled_info_info)
  have name: "serviceName [''NODE_ENV'' \<mapsto> ''development''] = ''unknown''"
    by (simp add: serviceName_unset)
  show ?thesis
    by (simp add: logWrapper'_console [OF a b] name pad_0 pad_1 pad_def numeral_2_eq_2 quote_def escape_char_def)
qed

text \<open>
  Claim C8. When \<^verbatim>\<open>LOG_LEVEL\<close> is not set, \<^verbatim>\<open>logLevel\<close> is \<^verbatim>\<open>info\<close>; when
  \<^verbatim>\<open>CI_PROJECT_NAME\<close> is not set, \<^verbatim>\<open>serviceName\<close> is \<^verbatim>\<open>unknown\<close>.
\<close>

theorem defaults_when_unset:
  "(e ''LOG_LEVEL'' = None \<longrightarrow> logLevel e = ''info'') \<and>
   (e ''CI_PROJECT_NAME'' = None \<longrightarrow> serviceName e = ''unknown'')"
  by (simp add: logLevel_def serviceName_def env_or_def)

theorem defaults_when_unset_witness:
  "logLevel Map.empty = ''info'' \<and> serviceName Map.empty = ''unknown''"
  using defaults_when_unset [of Map.empty] by simp

text \<open>
  Claim C10. For a call through \<^verbatim>\<open>logger.info\<close>, \<^verbatim>\<open>error\<close>, \<^verbatim>\<open>warn\<close> or \<^verbatim>\<open>debug\<close>, the
  record is exactly the list of \<^verbatim>\<open>name\<close>, \<^verbatim>\<open>hostname\<close>, \<^verbatim>\<open>pid\<close>, \<^verbatim>\<open>level\<close> (in the later
  revision \<^verbatim>\<open>levelNumber\<close> and \<^verbatim>\<open>levelName\<close>), \<^verbatim>\<open>msg\<close>, \<^verbatim>\<open>time\<close> and \<^verbatim>\<open>meta_data\<close>, each
  reserved field with the value of the logger and \<^verbatim>\<open>meta_data\<close> with the whole metadata
  of the caller. The level is a number, and no field is left out by the serialiser,
  so the written line has exactly these keys.
\<close>

theorem typed_interface_record:
  assumes "lvl \<in> set [''info'', ''error'', ''warn'', ''debug'']"
  shows "wlogger_record h (format_combine e now (log_info lvl ob)) =
           [(''name'', JStr (serviceName e)), (''hostname'', JStr (hostname h)),
            (''pid'', JNum (pid h)), (''level'', levelNumber lvl),
            (''msg'', JStr (message ob)), (''time'', JStr now),
            (''meta_data'', JObj (meta_data ob))] \<and>
         wlogger_record' h (format_combine e now (log_info lvl ob)) =
           [(''name'', JStr (serviceName e)), (''hostname'', JStr (hostname h)),
            (''pid'', JNum (pid h)), (''levelNumber'', levelNumber lvl),
            (''levelName'', JStr lvl), (''msg'', JStr (message ob)), (''time'', JStr now),
            (''meta_data'', JObj (meta_data ob))] \<and>
         (\<exists>n. levelNumber lvl = JNum n) \<and>
         filter (\<lambda>p. omitted (snd p))
           (wlogger_record h (format_combine e now (log_info lvl ob))) = [] \<and>
         filter (\<lambda>p. omitted (snd p))
           (wlogger_record' h (format_combine e now (log_info lvl ob))) = []"
proof -
  from levelNumber_four [OF assms] obtain n where n: "levelNumber lvl = JNum n" by blast
  then show ?thesis by (simp add: typed_record typed_record')
qed

theorem typed_interface_record_witness:
  "''warn'' \<in> set [''info'', ''error'', ''warn'', ''debug''] \<and>
   map fst (wlogger_record \<lparr>hostname = ''h'', pid = 1\<rparr>
     (format_combine Map.empty ''t'' (log_info ''warn''
        \<lparr>message = ''m'', meta_data = [(''name'', JStr ''x''), (''level'', JNum 7)]\<rparr>))) =
     [''name'', ''hostname'', ''pid'', ''level'', ''msg'', ''time'', ''meta_data''] \<and>
   map_of (wlogger_record \<lparr>hostname = ''h'', pid = 1\<rparr>
     (format_combine Map.empty ''t'' (log_info ''warn''
        \<lparr>message = ''m'', meta_data = [(''name'', JStr ''x''), (''level'', JNum 7)]\<rparr>))) ''name'' =
     Some (JStr ''unknown'')"
proof -
  have a: "''warn'' \<in> set [''info'', ''error'', ''warn'', ''debug'']" by simp
  show ?thesis
    using typed_interface_record [OF a, of "\<lparr>hostname = ''h'', pid = 1\<rparr>" Map.empty "''t''"
        "\<lparr>message = ''m'', meta_data = [(''name'', JStr ''x''), (''level'', JNum 7)]\<rparr>"]
    by (simp add: serviceName_unset)
qed

end
